theory Spec2Isabelle
  imports Complex_Main
begin

section \<open>Strings of the host language\<close>

text \<open>
  The program is Python. A \<open>str\<close> is modelled as a \<^typ>\<open>string\<close>, each \<^typ>\<open>char\<close> read as
  the code point of the same number, so the model covers the strings whose code points are
  below 256. The functions below are the \<open>str\<close> methods the program calls, written as the
  library documents them: scanning from the left, matches never overlapping.
\<close>

datatype py_error = ValueError | IndexError | RuntimeError string

definition is_space :: "char \<Rightarrow> bool" where
  \<comment> \<open>\<open>str.isspace\<close> on one character: tab to carriage return, the four separators
      FS, GS, RS, US, the blank, NEL and the no-break space.\<close>
  "is_space c =
     (let n = (of_char c :: nat)
      in (9 \<le> n \<and> n \<le> 13) \<or> (28 \<le> n \<and> n \<le> 32) \<or> n = 133 \<or> n = 160)"

definition strip :: "string \<Rightarrow> string" where
  \<comment> \<open>\<open>s.strip()\<close>\<close>
  "strip s = rev (dropWhile is_space (rev (dropWhile is_space s)))"

definition strip_chars :: "string \<Rightarrow> string \<Rightarrow> string" where
  \<comment> \<open>\<open>s.strip(chars)\<close>\<close>
  "strip_chars s chars =
     rev (dropWhile (\<lambda>c. c \<in> set chars) (rev (dropWhile (\<lambda>c. c \<in> set chars) s)))"

definition startswith :: "string \<Rightarrow> string \<Rightarrow> bool" where
  \<comment> \<open>\<open>s.startswith(p)\<close>\<close>
  "startswith s p = (take (length p) s = p)"

definition endswith :: "string \<Rightarrow> string \<Rightarrow> bool" where
  \<comment> \<open>\<open>s.endswith(p)\<close>\<close>
  "endswith s p = startswith (rev s) (rev p)"

fun contains :: "string \<Rightarrow> string \<Rightarrow> bool" where
  \<comment> \<open>\<open>sub in s\<close>\<close>
  "contains [] sub = (sub = [])"
| "contains (c # cs) sub = (startswith (c # cs) sub \<or> contains cs sub)"

function count :: "string \<Rightarrow> string \<Rightarrow> nat" where
  \<comment> \<open>\<open>s.count(sub)\<close>: the matches found from the left, none overlapping another\<close>
  "count [] sub = (if sub = [] then 1 else 0)"
| "count (c # cs) sub =
     (if sub = [] then Suc (count cs sub)
      else if startswith (c # cs) sub then Suc (count (drop (length sub) (c # cs)) sub)
      else count cs sub)"
  by pat_completeness auto
termination
  by (relation "measure (\<lambda>(s, sub). length s)") auto

function split_from :: "string \<Rightarrow> string \<Rightarrow> string \<Rightarrow> string list" where
  \<comment> \<open>the scan of \<open>s.split(sep)\<close>: \<open>acc\<close> holds the current piece, reversed\<close>
  "split_from sep acc [] = [rev acc]"
| "split_from sep acc (c # cs) =
     (if sep \<noteq> [] \<and> startswith (c # cs) sep
      then rev acc # split_from sep [] (drop (length sep) (c # cs))
      else split_from sep (c # acc) cs)"
  by pat_completeness auto
termination
  by (relation "measure (\<lambda>(sep, acc, s). length s)") auto

definition split :: "string \<Rightarrow> string \<Rightarrow> string list" where
  \<comment> \<open>\<open>s.split(sep)\<close> for a separator that is not empty; on the empty separator Python
      raises \<open>ValueError\<close>, which the callers below write out.\<close>
  "split s sep = split_from sep [] s"

function replace :: "string \<Rightarrow> string \<Rightarrow> string \<Rightarrow> string" where
  \<comment> \<open>\<open>s.replace(old, new)\<close>\<close>
  "replace [] old new = (if old = [] then new else [])"
| "replace (c # cs) old new =
     (if old = [] then new @ c # replace cs old new
      else if startswith (c # cs) old then new @ replace (drop (length old) (c # cs)) old new
      else c # replace cs old new)"
  by pat_completeness auto
termination
  by (relation "measure (\<lambda>(s, old, new). length s)") auto

fun join :: "string \<Rightarrow> string list \<Rightarrow> string" where
  \<comment> \<open>\<open>sep.join(xs)\<close>\<close>
  "join sep [] = []"
| "join sep [x] = x"
| "join sep (x # y # ys) = x @ sep @ join sep (y # ys)"

definition lower_char :: "char \<Rightarrow> char" where
  "lower_char c =
     (let n = (of_char c :: nat)
      in if (65 \<le> n \<and> n \<le> 90) \<or> (192 \<le> n \<and> n \<le> 222 \<and> n \<noteq> 215)
         then char_of (n + 32) else c)"

definition lower :: "string \<Rightarrow> string" where
  \<comment> \<open>\<open>s.lower()\<close>\<close>
  "lower s = map lower_char s"

section \<open>Placeholder normalisation and the length directive\<close>

text \<open>
  The first lines of \<open>generate_with_openrouter_via_client\<close>, the same in \<open>app/main.py\<close>
  and \<open>backend/main.py\<close>.
\<close>

definition wrap_placeholder :: "string \<Rightarrow> string" where
  "wrap_placeholder ph =
     (if startswith ph ''{'' \<and> endswith ph ''}'' then ph
      else ''{'' @ strip_chars ph ''{} '' @ ''}'')"

fun norm_loop :: "string list \<Rightarrow> string list \<Rightarrow> string list" where
  \<comment> \<open>the loop over \<open>raw_placeholders\<close>; the first argument is \<open>norm_placeholders\<close>\<close>
  "norm_loop acc [] = acc"
| "norm_loop acc (ph # rest) =
     (let ph' = wrap_placeholder ph
      in norm_loop (if ph' \<in> set acc then acc else acc @ [ph']) rest)"

definition raw_placeholders :: "string \<Rightarrow> string list" where
  "raw_placeholders placeholders =
     (let raw = filter (\<lambda>p. p \<noteq> []) (map strip (split placeholders '',''))
      in if raw = [] then [''{name}''] else raw)"

definition normalize_placeholders :: "string \<Rightarrow> string list" where
  "normalize_placeholders placeholders = norm_loop [] (raw_placeholders placeholders)"

definition sentence_rule :: "string \<Rightarrow> string" where
  "sentence_rule length_arg =
     (if length_arg = ''medium'' then ''Write 4 to 5 complete sentences.''
      else if length_arg = ''long'' then ''Write 7 to 9 complete sentences.''
      else ''Write 1 to 2 concise sentences.'')"

definition braced :: "string \<Rightarrow> bool" where
  \<comment> \<open>the test of the loop above: \<open>ph.startswith("{") and ph.endswith("}")\<close>\<close>
  "braced t = (startswith t ''{'' \<and> endswith t ''}'')"

section \<open>Post-processing of the completion text\<close>

text \<open>
  The loop under the comment \<open># enforce placeholders exactly once\<close>. \<open>text.split(ph)\<close>
  raises \<open>ValueError\<close> on the empty separator; \<open>parts[0]\<close> raises \<open>IndexError\<close> on the
  empty list.
\<close>

definition enforce_step :: "string \<Rightarrow> string \<Rightarrow> py_error + string" where
  "enforce_step ph text =
     (if \<not> contains text ph then Inr (''Hello '' @ ph @ '', '' @ text)
      else if count text ph > 1 then
        (if ph = [] then Inl ValueError
         else (case split text ph of
                 [] \<Rightarrow> Inl IndexError
               | p0 # rest \<Rightarrow> Inr (p0 @ ph @ replace (join '' '' rest) ph [])))
      else Inr text)"

fun enforce_placeholders :: "string list \<Rightarrow> string \<Rightarrow> py_error + string" where
  "enforce_placeholders [] text = Inr text"
| "enforce_placeholders (ph # phs) text =
     (case enforce_step ph text of
        Inl e \<Rightarrow> Inl e
      | Inr text' \<Rightarrow> enforce_placeholders phs text')"

section \<open>Double-precision numbers\<close>

text \<open>
  The clock readings and the minimum interval are Python floats, that is IEEE 754 binary64
  numbers. A finite one is modelled by its exact value, a rational; the sign of zero,
  which nothing below observes, is dropped. \<open>round_double\<close> takes a rational to the nearest
  double, ties to even, with gradual underflow and with overflow to the infinities; the
  sum and the difference of two doubles are the exact ones, rounded.
\<close>

datatype double = Finite rat | PosInf | NegInf | NaN

definition pow2 :: "int \<Rightarrow> rat" where
  "pow2 e = (if 0 \<le> e then 2 ^ nat e else 1 / 2 ^ nat (- e))"

function bit_length :: "int \<Rightarrow> int" where
  "bit_length k = (if k \<le> 0 then 0 else 1 + bit_length (k div 2))"
  by pat_completeness auto
termination
  by (relation "measure (\<lambda>k. nat k)") auto

definition floor_log2 :: "rat \<Rightarrow> int" where
  \<comment> \<open>for a positive \<open>x\<close>, the \<open>e\<close> with \<open>2 ^ e \<le> x < 2 ^ (e + 1)\<close>\<close>
  "floor_log2 x =
     (let (p, q) = quotient_of x;
          e = bit_length p - bit_length q
      in if pow2 e \<le> x then e else e - 1)"

definition round_half_even :: "rat \<Rightarrow> int" where
  "round_half_even x =
     (let f = \<lfloor>x\<rfloor>; d = x - of_int f
      in if d < 1 / 2 then f else if 1 / 2 < d then f + 1 else if even f then f else f + 1)"

definition round_double :: "rat \<Rightarrow> double" where
  \<comment> \<open>53 significant bits, exponents from -1022 to 1023: \<open>m\<close> is the significand in units
      of \<open>ulp\<close>, and the result overflows when it reaches \<open>2 ^ 1024\<close>\<close>
  "round_double x =
     (if x = 0 then Finite 0
      else
        (let a = \<bar>x\<bar>;
             e = max (floor_log2 a) (- 1022);
             ulp = pow2 (e - 52);
             m = round_half_even (a / ulp)
         in if 1023 < e \<or> (e = 1023 \<and> 9007199254740992 \<le> m)
            then (if 0 < x then PosInf else NegInf)
            else Finite (if 0 < x then of_int m * ulp else - (of_int m * ulp))))"


fun dadd :: "double \<Rightarrow> double \<Rightarrow> double" where
  \<comment> \<open>\<open>x + y\<close>\<close>
  "dadd NaN y = NaN"
| "dadd x NaN = NaN"
| "dadd PosInf NegInf = NaN"
| "dadd NegInf PosInf = NaN"
| "dadd PosInf y = PosInf"
| "dadd NegInf y = NegInf"
| "dadd x PosInf = PosInf"
| "dadd x NegInf = NegInf"
| "dadd (Finite x) (Finite y) = round_double (x + y)"



section \<open>The rate gate\<close>









definition tenth :: double where
  \<comment> \<open>the float \<open>0.1\<close>\<close>
  "tenth = round_double (1 / 10)"

definition clock_07 :: double where
  \<comment> \<open>the float \<open>0.7\<close>\<close>
  "clock_07 = round_double (7 / 10)"

section \<open>Configuration\<close>

text \<open>
  The environment is a map from names to strings. \<open>int\<close> and \<open>float\<close> are builtins of the
  host language: the definitions take them as parameters \<open>int_of\<close> and \<open>float_of\<close>, \<open>None\<close>
  where the builtin raises \<open>ValueError\<close>, and the type \<open>'f\<close> stands for the floats.
\<close>

type_synonym environ = "string \<rightharpoonup> string"

definition getenv :: "environ \<Rightarrow> string \<Rightarrow> string \<Rightarrow> string" where
  \<comment> \<open>\<open>os.getenv(key, dflt)\<close>\<close>
  "getenv env key dflt = (case env key of None \<Rightarrow> dflt | Some v \<Rightarrow> v)"

definition py_or :: "string option \<Rightarrow> string option \<Rightarrow> string option" where
  \<comment> \<open>\<open>a or b\<close> on values that are \<open>None\<close> or a \<open>str\<close>\<close>
  "py_or a b = (case a of Some (c # cs) \<Rightarrow> a | _ \<Rightarrow> b)"

definition is_decimal :: "char \<Rightarrow> bool" where
  "is_decimal c = (let n = (of_char c :: nat) in 48 \<le> n \<and> n \<le> 57)"

definition is_digit :: "char \<Rightarrow> bool" where
  \<comment> \<open>\<open>str.isdigit\<close> on one character: the decimal digits and the superscripts 1, 2, 3\<close>
  "is_digit c = (let n = (of_char c :: nat) in is_decimal c \<or> n = 178 \<or> n = 179 \<or> n = 185)"

definition isdigit :: "string \<Rightarrow> bool" where
  \<comment> \<open>\<open>s.isdigit()\<close>\<close>
  "isdigit s = (s \<noteq> [] \<and> list_all is_digit s)"

text \<open>The numeric settings of \<open>main.py\<close> (both trees), each read as the source reads it.\<close>

definition DEEPSEEK_MAX_TOKENS_of :: "(string \<Rightarrow> int option) \<Rightarrow> environ \<Rightarrow> py_error + int" where
  \<comment> \<open>\<open>int(os.getenv("DEEPSEEK_MAX_TOKENS", "2500"))\<close>\<close>
  "DEEPSEEK_MAX_TOKENS_of int_of env =
     (case int_of (getenv env ''DEEPSEEK_MAX_TOKENS'' ''2500'') of
        None \<Rightarrow> Inl ValueError
      | Some v \<Rightarrow> Inr v)"

definition float_setting ::
  "(string \<Rightarrow> 'f option) \<Rightarrow> environ \<Rightarrow> string \<Rightarrow> string \<Rightarrow> py_error + 'f" where
  \<comment> \<open>\<open>float(os.getenv(key, dflt))\<close>\<close>
  "float_setting float_of env key dflt =
     (case float_of (getenv env key dflt) of None \<Rightarrow> Inl ValueError | Some v \<Rightarrow> Inr v)"

definition min_interval_seconds_of :: "(string \<Rightarrow> 'f option) \<Rightarrow> environ \<Rightarrow> py_error + 'f" where
  "min_interval_seconds_of float_of env = float_setting float_of env ''OPENROUTER_MIN_INTERVAL'' ''1.5''"

definition temperature_of :: "(string \<Rightarrow> 'f option) \<Rightarrow> environ \<Rightarrow> py_error + 'f" where
  "temperature_of float_of env = float_setting float_of env ''DEEPSEEK_TEMPERATURE'' ''0.6''"

definition timeout_seconds_of :: "(string \<Rightarrow> 'f option) \<Rightarrow> environ \<Rightarrow> py_error + 'f" where
  "timeout_seconds_of float_of env = float_setting float_of env ''OPENROUTER_TIMEOUT'' ''45''"

definition DEEPSEEK_BASE_URL_of :: "environ \<Rightarrow> string" where
  \<comment> \<open>the endpoint of \<open>main.py\<close>, which does not look at the credential\<close>
  "DEEPSEEK_BASE_URL_of env =
     getenv env ''DEEPSEEK_BASE_URL'' (getenv env ''OPENROUTER_URL'' ''https://openrouter.ai/api/v1'')"

definition DEEPSEEK_MODEL_of :: "environ \<Rightarrow> string" where
  "DEEPSEEK_MODEL_of env =
     getenv env ''DEEPSEEK_MODEL''
       (getenv env ''OPENROUTER_MODEL'' ''deepseek/deepseek-r1-0528:free'')"

text \<open>\<open>resolve_connection_details\<close> of \<open>app/backend/test/test_deepseek_connection.py\<close>.\<close>

record 'f connection_details =
  api_key :: string
  base_url :: string
  model :: string
  temperature :: 'f
  max_tokens :: "int option"
  is_openrouter :: bool

definition resolve_connection_details ::
  "(string \<Rightarrow> int option) \<Rightarrow> (string \<Rightarrow> 'f option) \<Rightarrow> environ \<Rightarrow> string option
   \<Rightarrow> py_error + 'f connection_details" where
  "resolve_connection_details int_of float_of env explicit_api_key =
     (case py_or (py_or explicit_api_key (env ''DEEPSEEK_API_KEY''))
                 (env ''DEFAULT_DEEPSEEK_API_KEY'') of
        None \<Rightarrow> Inl (RuntimeError ''No API key found. Set DEEPSEEK_API_KEY or pass --api-key.'')
      | Some [] \<Rightarrow> Inl (RuntimeError ''No API key found. Set DEEPSEEK_API_KEY or pass --api-key.'')
      | Some (k # ks) \<Rightarrow>
          (let key = k # ks;
               openrouter = startswith key ''sk-or-v1-'';
               url = (if openrouter then ''https://openrouter.ai/api/v1''
                      else getenv env ''DEEPSEEK_BASE_URL'' ''https://api.deepseek.com'');
               default_model = (if openrouter then ''deepseek/deepseek-r1-0528''
                                else ''deepseek-reasoner'');
               m = getenv env ''DEEPSEEK_MODEL'' default_model
           in case float_of (getenv env ''DEEPSEEK_TEMPERATURE'' ''0.7'') of
                None \<Rightarrow> Inl ValueError
              | Some t \<Rightarrow>
                  (let max_tokens_env = strip (getenv env ''DEEPSEEK_MAX_TOKENS'' [])
                   in if isdigit max_tokens_env
                      then (case int_of max_tokens_env of
                              None \<Rightarrow> Inl ValueError
                            | Some v \<Rightarrow>
                                Inr \<lparr>api_key = key, base_url = url, model = m, temperature = t,
                                     max_tokens = (if v > 0 then Some v else None),
                                     is_openrouter = openrouter\<rparr>)
                      else Inr \<lparr>api_key = key, base_url = url, model = m, temperature = t,
                                max_tokens = None, is_openrouter = openrouter\<rparr>)))"

text \<open>
  Parsers for the examples only. \<open>decimal_int\<close> reads an optional sign followed by decimal
  digits. \<open>decimal_float\<close> reads decimal digits, then optionally a dot and more decimal
  digits, with no sign, to the exact decimal value. The builtins accept more than that
  (blanks around the number, underscores between digits, and for \<open>float\<close> a sign, a dot
  with digits on one side only, an exponent, \<open>inf\<close> and \<open>nan\<close>), and \<open>float\<close> rounds to a
  double. The examples use the parsers on the strings \<open>2500\<close>, \<open>1.5\<close>, \<open>0.6\<close>, \<open>0.7\<close>,
  \<open>45\<close>, \<open>3\<close> and \<open>abc\<close>: the builtins accept the first six and reject the last, as the
  parsers do.
\<close>

definition digit_value :: "char \<Rightarrow> int" where
  "digit_value c = int (of_char c) - 48"

fun digits_value :: "int \<Rightarrow> string \<Rightarrow> int" where
  "digits_value acc [] = acc"
| "digits_value acc (c # cs) = digits_value (10 * acc + digit_value c) cs"

definition decimal_nat :: "string \<Rightarrow> int option" where
  "decimal_nat s = (if s \<noteq> [] \<and> list_all is_decimal s then Some (digits_value 0 s) else None)"

definition decimal_int :: "string \<Rightarrow> int option" where
  "decimal_int s =
     (case s of
        [] \<Rightarrow> None
      | c # cs \<Rightarrow>
          if c = CHR ''-'' then map_option uminus (decimal_nat cs)
          else if c = CHR ''+'' then decimal_nat cs
          else decimal_nat s)"

definition decimal_float :: "string \<Rightarrow> rat option" where
  "decimal_float s =
     (let whole = takeWhile (\<lambda>c. c \<noteq> CHR ''.'') s;
          rest = dropWhile (\<lambda>c. c \<noteq> CHR ''.'') s
      in case decimal_nat whole of
           None \<Rightarrow> None
         | Some w \<Rightarrow>
             (case rest of
                [] \<Rightarrow> Some (of_int w)
              | dot # fs \<Rightarrow>
                  (case decimal_nat fs of
                     None \<Rightarrow> None
                   | Some f \<Rightarrow> Some (of_int w + of_int f / 10 ^ length fs))))"

section \<open>The completion orchestrator\<close>

text \<open>
  \<open>generate_with_openrouter_via_client\<close>, once for each tree. What lies outside the program
  is a parameter, gathered in the record \<open>host\<close>: the module constants, the environment, the
  float operations (\<open>times_07 m\<close> is \<open>int(m * 0.7)\<close>, \<open>lower_temp t\<close> is
  \<open>max(0.3, float(t) - 0.05)\<close>), the text of an \<open>HTTPException\<close>, and the upstream service:
  \<open>upstream h k req\<close> is what the call number \<open>k\<close> (from 0) does with the request \<open>req\<close>. The
  float operations are total: the token budgets are taken to lie within the range of the
  floats. The effects are recorded in a trace: a pass through the rate gate, an upstream
  call with its request, a sleep with its duration. Printing is left out.
\<close>

record 'f request =
  req_model :: string
  req_messages :: "(string \<times> string) list"
  req_max_tokens :: int
  req_temperature :: 'f
  req_n :: "nat option"
  req_extra_headers :: "(string \<times> string) list"

datatype outcome =
    Completion string
    \<comment> \<open>the call returns; the string is \<open>message.content or ""\<close>, or the response's \<open>text\<close>\<close>
  | TimeoutError
    \<comment> \<open>\<open>asyncio.wait_for\<close> raises \<open>asyncio.TimeoutError\<close>, whose text is empty\<close>
  | Raised string "(string \<times> string) list"
    \<comment> \<open>any other \<open>Exception e\<close>: \<open>str(e)\<close> and the headers of \<open>e.response\<close>, if any\<close>

datatype 'f delay =
    Backoff nat
    \<comment> \<open>\<open>base_delay + jitter\<close> of the given attempt, \<open>base_delay = 1.0 * 2 ** (attempt - 1)\<close>,
        \<open>jitter = random.uniform(0, 0.4 * base_delay)\<close>\<close>
  | Seconds 'f
    \<comment> \<open>\<open>float(retry_after)\<close>\<close>

datatype 'f event = Gate | Call "'f request" | Sleep "'f delay"

datatype result = Return string | ReturnNone | RaiseHTTP nat string | RaiseError py_error

datatype 'f step = Done result | Retry "'f request" "'f delay" string

record 'f host =
  client_ready :: bool
  DEEPSEEK_MODEL :: string
  DEEPSEEK_MAX_TOKENS :: int
  OPENROUTER_SITE_URL :: "string option"
  OPENROUTER_SITE_NAME :: "string option"
  SYSTEM_PROMPT :: string
  environ :: environ
  float_of :: "string \<Rightarrow> 'f option"
  times_07 :: "int \<Rightarrow> int"
  lower_temp :: "'f \<Rightarrow> 'f"
  http_exc_str :: "nat \<Rightarrow> string \<Rightarrow> string"
  upstream :: "nat \<Rightarrow> 'f request \<Rightarrow> outcome"

record args =
  prompt :: string
  tone :: string
  max_tokens_arg :: int
  placeholders :: string
  audience :: string
  length_arg :: string

definition max_retries :: nat where
  "max_retries = 4"

definition newline :: string where
  "newline = [CHR 0x0A]"

function str_nat :: "nat \<Rightarrow> string" where
  "str_nat k = (if k < 10 then [char_of (48 + k)] else str_nat (k div 10) @ [char_of (48 + k mod 10)])"
  by pat_completeness auto
termination
  by (relation "measure (\<lambda>k. k)") auto

definition str_int :: "int \<Rightarrow> string" where
  \<comment> \<open>\<open>str(i)\<close>, as an f-string writes an \<open>int\<close>\<close>
  "str_int i = (if i < 0 then ''-'' @ str_nat (nat (- i)) else str_nat (nat i))"

definition placeholders_rule :: "string list \<Rightarrow> string" where
  "placeholders_rule norm_placeholders =
     join '' '' (map (\<lambda>ph. ''Include the exact placeholder '' @ ph @ '' exactly once.'')
                     norm_placeholders)"

definition audience_or_general :: "args \<Rightarrow> string" where
  \<comment> \<open>\<open>audience or 'general audience'\<close>\<close>
  "audience_or_general a = (if audience a = [] then ''general audience'' else audience a)"

definition user_instruction :: "args \<Rightarrow> string list \<Rightarrow> string" where
  "user_instruction a norm_placeholders =
     ''Audience: '' @ audience_or_general a @ newline @
     ''Tone: '' @ tone a @ newline @
     ''Desired tokens (approx): '' @ str_int (max_tokens_arg a) @ newline @
     ''User prompt: '' @ prompt a @ newline @ newline @
     ''Task: Produce one broadcast-ready WhatsApp message based on the user prompt.'' @ newline @
     ''Output rules:'' @ newline @
     '' - '' @ sentence_rule (length_arg a) @ newline @
     '' - '' @ placeholders_rule norm_placeholders @ newline @
     '' - Keep it friendly and brand-safe.'' @ newline @
     '' - Do not include links or phone numbers.'' @ newline @
     '' - Do not ask questions.'' @ newline @
     ''Return only the final message text.''"

definition header_if_set :: "string \<Rightarrow> string option \<Rightarrow> (string \<times> string) list" where
  "header_if_set name v = (case v of Some (c # cs) \<Rightarrow> [(name, c # cs)] | _ \<Rightarrow> [])"

definition extra_headers :: "'f host \<Rightarrow> (string \<times> string) list" where
  "extra_headers h =
     header_if_set ''HTTP-Referer'' (OPENROUTER_SITE_URL h) @
     header_if_set ''X-Title'' (OPENROUTER_SITE_NAME h)"

definition first_req :: "'f host \<Rightarrow> args \<Rightarrow> string list \<Rightarrow> 'f \<Rightarrow> 'f request" where
  \<comment> \<open>the dictionary \<open>req\<close> before the loop\<close>
  "first_req h a norm_placeholders t =
     \<lparr>req_model = DEEPSEEK_MODEL h,
      req_messages = [(''system'', SYSTEM_PROMPT h),
                      (''user'', user_instruction a norm_placeholders)],
      req_max_tokens = min (max_tokens_arg a) (DEEPSEEK_MAX_TOKENS h),
      req_temperature = t,
      req_n = Some 1,
      req_extra_headers = extra_headers h\<rparr>"

definition simple_req :: "'f host \<Rightarrow> args \<Rightarrow> string list \<Rightarrow> 'f \<Rightarrow> 'f request \<Rightarrow> 'f request" where
  "simple_req h a norm_placeholders t req =
     \<lparr>req_model = DEEPSEEK_MODEL h,
      req_messages =
        [(''user'',
          ''Audience: '' @ audience_or_general a @ ''. Tone: '' @ tone a @ ''. '' @
          sentence_rule (length_arg a) @
          '' Include each of these placeholders exactly once: '' @
          join '', '' norm_placeholders @ ''. No links or questions.'' @ newline @
          ''Prompt: '' @ prompt a)],
      req_max_tokens =
        max 80 (min 200 (if req_max_tokens req \<noteq> 0 then req_max_tokens req else 180)),
      req_temperature = t,
      req_n = None,
      req_extra_headers = extra_headers h\<rparr>"

definition scale_down :: "'f host \<Rightarrow> args \<Rightarrow> 'f request \<Rightarrow> 'f request" where
  \<comment> \<open>the progressive scaling: \<open>current_max = req.get("max_tokens") or max_tokens\<close>,
      \<open>scaled = max(int(current_max * 0.7), 40)\<close>, and the lower temperature\<close>
  "scale_down h a req =
     (let current_max = (if req_max_tokens req \<noteq> 0 then req_max_tokens req
                         else max_tokens_arg a);
          scaled = max (times_07 h current_max) 40
      in req\<lparr>req_max_tokens := scaled, req_temperature := lower_temp h (req_temperature req)\<rparr>)"

definition is_rate_limited :: "string \<Rightarrow> bool" where
  "is_rate_limited s =
     (contains s ''429'' \<or> contains (lower s) ''rate-limit'' \<or>
      contains (lower s) ''rate limited'' \<or> contains (lower s) ''temporarily rate-limited'')"

definition is_auth_error :: "string \<Rightarrow> bool" where
  \<comment> \<open>the test before \<open>OpenRouter auth error\<close>\<close>
  "is_auth_error s =
     (contains s ''401'' \<or> contains s ''403'' \<or> contains s ''User not found'' \<or>
      contains (lower s) ''invalid'')"

fun is_call :: "'f event \<Rightarrow> bool" where
  "is_call (Call r) = True"
| "is_call e = False"

definition n_calls :: "'f event list \<Rightarrow> nat" where
  "n_calls trace = length (filter is_call trace)"

fun is_sleep :: "'f event \<Rightarrow> bool" where
  "is_sleep (Sleep d) = True"
| "is_sleep e = False"

definition n_sleeps :: "'f event list \<Rightarrow> nat" where
  "n_sleeps trace = length (filter is_sleep trace)"

definition error_text :: "py_error \<Rightarrow> string" where
  \<comment> \<open>\<open>str(e)\<close> of the errors the post-processing can raise\<close>
  "error_text e =
     (case e of
        ValueError \<Rightarrow> ''empty separator''
      | IndexError \<Rightarrow> ''list index out of range''
      | RuntimeError m \<Rightarrow> m)"

subsection \<open>\<open>app/main.py\<close>\<close>

definition retry_after_header :: "(string \<times> string) list \<Rightarrow> string option" where
  \<comment> \<open>\<open>headers.get("Retry-After") or headers.get("retry-after")\<close>\<close>
  "retry_after_header headers =
     py_or (map_of headers ''Retry-After'') (map_of headers ''retry-after'')"

definition app_delay :: "'f host \<Rightarrow> nat \<Rightarrow> (string \<times> string) list \<Rightarrow> py_error + 'f delay" where
  "app_delay h attempt headers =
     (case retry_after_header headers of
        Some (c # cs) \<Rightarrow>
          if isdigit (remove1 CHR ''.'' (c # cs))
          then (case float_of h (c # cs) of
                  None \<Rightarrow> Inl ValueError
                | Some d \<Rightarrow> Inr (Seconds d))
          else Inr (Backoff attempt)
      | _ \<Rightarrow> Inr (Backoff attempt))"

definition app_on_timeout :: "'f host \<Rightarrow> args \<Rightarrow> nat \<Rightarrow> 'f request \<Rightarrow> 'f step" where
  \<comment> \<open>the handler \<open>except asyncio.TimeoutError\<close>\<close>
  "app_on_timeout h a attempt req =
     (if attempt < max_retries then Retry (scale_down h a req) (Backoff attempt) []
      else Done (RaiseHTTP 504 ''OpenRouter timeout''))"

definition app_on_exception ::
  "'f host \<Rightarrow> args \<Rightarrow> nat \<Rightarrow> 'f request \<Rightarrow> string \<Rightarrow> (string \<times> string) list \<Rightarrow> 'f step" where
  \<comment> \<open>the handler \<open>except Exception\<close>\<close>
  "app_on_exception h a attempt req s headers =
     (if is_auth_error s then Done (RaiseHTTP 502 (''OpenRouter auth error: '' @ s))
      else if is_rate_limited s \<and> attempt < max_retries then
        (case app_delay h attempt headers of
           Inl e \<Rightarrow> Done (RaiseError e)
         | Inr d \<Rightarrow> Retry (scale_down h a req) d s)
      else Done (RaiseHTTP 502 (''OpenRouter error: '' @ s)))"

definition app_finish ::
  "'f host \<Rightarrow> args \<Rightarrow> string list \<Rightarrow> nat \<Rightarrow> 'f request \<Rightarrow> string \<Rightarrow> 'f step" where
  "app_finish h a norm_placeholders attempt req text =
     (case enforce_placeholders norm_placeholders text of
        Inl e \<Rightarrow> app_on_exception h a attempt req (error_text e) []
      | Inr text' \<Rightarrow> Done (Return text'))"

definition app_attempt ::
  "'f host \<Rightarrow> args \<Rightarrow> string list \<Rightarrow> 'f \<Rightarrow> nat \<Rightarrow> 'f request \<Rightarrow> 'f event list
   \<Rightarrow> 'f step \<times> 'f event list" where
  \<comment> \<open>one pass of the loop body\<close>
  "app_attempt h a norm_placeholders t attempt req trace =
     (let trace1 = trace @ [Gate, Call req]
      in case upstream h (n_calls trace) req of
           TimeoutError \<Rightarrow> (app_on_timeout h a attempt req, trace1)
         | Raised s headers \<Rightarrow> (app_on_exception h a attempt req s headers, trace1)
         | Completion raw \<Rightarrow>
             (let text = strip (strip raw)
              in if text \<noteq> [] then (app_finish h a norm_placeholders attempt req text, trace1)
                 else
                   (let req2 = simple_req h a norm_placeholders t req;
                        trace2 = trace1 @ [Gate, Call req2]
                    in case upstream h (n_calls trace1) req2 of
                         TimeoutError \<Rightarrow> (app_on_timeout h a attempt req, trace2)
                       | Raised s headers \<Rightarrow>
                           (app_on_exception h a attempt req s headers, trace2)
                       | Completion raw2 \<Rightarrow>
                           (let text2 = strip (strip raw2)
                            in if text2 \<noteq> []
                               then (app_finish h a norm_placeholders attempt req text2, trace2)
                               else if attempt < max_retries
                               then (Retry (scale_down h a req) (Backoff attempt)
                                       ''OpenRouter returned empty text'', trace2)
                               else (app_on_exception h a attempt req
                                       (http_exc_str h 502 ''OpenRouter returned empty text'') [],
                                     trace2)))))"

fun app_loop ::
  "'f host \<Rightarrow> args \<Rightarrow> string list \<Rightarrow> 'f \<Rightarrow> nat list \<Rightarrow> 'f request \<Rightarrow> 'f event list \<Rightarrow> string
   \<Rightarrow> result \<times> 'f event list" where
  \<comment> \<open>\<open>for attempt in range(1, max_retries + 1)\<close>, and the \<open>raise\<close> after the loop\<close>
  "app_loop h a norm_placeholders t [] req trace last_exc =
     (RaiseHTTP 502 (''OpenRouter error (final): '' @ last_exc), trace)"
| "app_loop h a norm_placeholders t (attempt # rest) req trace last_exc =
     (case app_attempt h a norm_placeholders t attempt req trace of
        (Done r, trace') \<Rightarrow> (r, trace')
      | (Retry req' d e, trace') \<Rightarrow>
          app_loop h a norm_placeholders t rest req' (trace' @ [Sleep d]) e)"

definition generate_with_openrouter_via_client_app ::
  "'f host \<Rightarrow> args \<Rightarrow> result \<times> 'f event list" where
  "generate_with_openrouter_via_client_app h a =
     (if \<not> client_ready h then (RaiseHTTP 503 ''AI client not initialized'', [])
      else
        (let norm_placeholders = normalize_placeholders (placeholders a)
         in case temperature_of (float_of h) (environ h) of
              Inl e \<Rightarrow> (RaiseError e, [])
            | Inr t \<Rightarrow>
                (case timeout_seconds_of (float_of h) (environ h) of
                   Inl e \<Rightarrow> (RaiseError e, [])
                 | Inr timeout_seconds \<Rightarrow>
                     app_loop h a norm_placeholders t [1..<max_retries + 1]
                       (first_req h a norm_placeholders t) [] ''None'')))"

subsection \<open>\<open>backend/main.py\<close>\<close>

definition backend_on_exception ::
  "'f host \<Rightarrow> args \<Rightarrow> nat \<Rightarrow> 'f request \<Rightarrow> string \<Rightarrow> 'f step" where
  \<comment> \<open>the only handler of this tree, \<open>except Exception\<close>\<close>
  "backend_on_exception h a attempt req s =
     (if is_auth_error s then Done (RaiseHTTP 502 (''OpenRouter auth error: '' @ s))
      else if is_rate_limited s \<and> attempt < 4
      then Retry (scale_down h a req) (Backoff attempt) s
      else Done (RaiseHTTP 502 (''OpenRouter error: '' @ s)))"

definition backend_finish ::
  "'f host \<Rightarrow> args \<Rightarrow> string list \<Rightarrow> nat \<Rightarrow> 'f request \<Rightarrow> string \<Rightarrow> 'f step" where
  "backend_finish h a norm_placeholders attempt req text =
     (case enforce_placeholders norm_placeholders text of
        Inl e \<Rightarrow> backend_on_exception h a attempt req (error_text e)
      | Inr text' \<Rightarrow> Done (Return text'))"

definition backend_attempt ::
  "'f host \<Rightarrow> args \<Rightarrow> string list \<Rightarrow> 'f \<Rightarrow> nat \<Rightarrow> 'f request \<Rightarrow> 'f event list
   \<Rightarrow> 'f step \<times> 'f event list" where
  "backend_attempt h a norm_placeholders t attempt req trace =
     (let trace1 = trace @ [Gate, Call req]
      in case upstream h (n_calls trace) req of
           TimeoutError \<Rightarrow> (backend_on_exception h a attempt req [], trace1)
         | Raised s headers \<Rightarrow> (backend_on_exception h a attempt req s, trace1)
         | Completion raw \<Rightarrow>
             (let text = strip (strip raw)
              in if text \<noteq> []
                 then (backend_finish h a norm_placeholders attempt req text, trace1)
                 else
                   (let req2 = simple_req h a norm_placeholders t req;
                        trace2 = trace1 @ [Gate, Call req2]
                    in case upstream h (n_calls trace1) req2 of
                         TimeoutError \<Rightarrow> (backend_on_exception h a attempt req [], trace2)
                       | Raised s headers \<Rightarrow> (backend_on_exception h a attempt req s, trace2)
                       | Completion raw2 \<Rightarrow>
                           (let text2 = strip (strip raw2)
                            in if text2 \<noteq> []
                               then (backend_finish h a norm_placeholders attempt req text2,
                                     trace2)
                               else if attempt < 4
                               then (Retry (scale_down h a req) (Backoff attempt) [], trace2)
                               else (backend_on_exception h a attempt req
                                       (http_exc_str h 502 ''OpenRouter returned empty text''),
                                     trace2)))))"

fun backend_loop ::
  "'f host \<Rightarrow> args \<Rightarrow> string list \<Rightarrow> 'f \<Rightarrow> nat list \<Rightarrow> 'f request \<Rightarrow> 'f event list
   \<Rightarrow> result \<times> 'f event list" where
  \<comment> \<open>\<open>for attempt in range(1, 5)\<close>; past the loop the function ends and returns \<open>None\<close>\<close>
  "backend_loop h a norm_placeholders t [] req trace = (ReturnNone, trace)"
| "backend_loop h a norm_placeholders t (attempt # rest) req trace =
     (case backend_attempt h a norm_placeholders t attempt req trace of
        (Done r, trace') \<Rightarrow> (r, trace')
      | (Retry req' d e, trace') \<Rightarrow>
          backend_loop h a norm_placeholders t rest req' (trace' @ [Sleep d]))"

definition generate_with_openrouter_via_client_backend ::
  "'f host \<Rightarrow> args \<Rightarrow> result \<times> 'f event list" where
  "generate_with_openrouter_via_client_backend h a =
     (if \<not> client_ready h then (RaiseHTTP 503 ''AI client not initialized'', [])
      else
        (let norm_placeholders = normalize_placeholders (placeholders a)
         in case temperature_of (float_of h) (environ h) of
              Inl e \<Rightarrow> (RaiseError e, [])
            | Inr t \<Rightarrow>
                (case timeout_seconds_of (float_of h) (environ h) of
                   Inl e \<Rightarrow> (RaiseError e, [])
                 | Inr timeout_seconds \<Rightarrow>
                     backend_loop h a norm_placeholders t [1..<5]
                       (first_req h a norm_placeholders t) [])))"

subsection \<open>A host for the examples\<close>

text \<open>
  The examples run on a host whose floats are rationals computed exactly, which stand in
  for the doubles of the program, and whose upstream is given call by call. \<open>trunc_07\<close> is
  the exact \<open>7 * m / 10\<close> cut towards zero; it is \<open>int(m * 0.7)\<close> at the budgets the
  examples reach (120, 84 and 58), not at every budget. The system prompt of this host is
  the first sentence of the program's. The theorems about every host use none of this.
\<close>

definition trunc_07 :: "int \<Rightarrow> int" where
  "trunc_07 m = (if 0 \<le> m then (m * 7) div 10 else - ((- m * 7) div 10))"

definition example_host :: "environ \<Rightarrow> (nat \<Rightarrow> rat request \<Rightarrow> outcome) \<Rightarrow> rat host" where
  "example_host env up =
     \<lparr>client_ready = True,
      DEEPSEEK_MODEL = ''deepseek/deepseek-r1-0528:free'',
      DEEPSEEK_MAX_TOKENS = 2500,
      OPENROUTER_SITE_URL = None,
      OPENROUTER_SITE_NAME = None,
      SYSTEM_PROMPT = ''You are a concise message generator for business broadcast messages.'',
      environ = env,
      float_of = decimal_float,
      times_07 = trunc_07,
      lower_temp = (\<lambda>t. max (3 / 10) (t - 1 / 20)),
      http_exc_str = (\<lambda>code detail. str_nat code @ '': '' @ detail),
      upstream = up\<rparr>"

definition example_args :: "string \<Rightarrow> string \<Rightarrow> args" where
  "example_args phs len =
     \<lparr>prompt = ''Diwali greetings'', tone = ''informal'', max_tokens_arg = 120,
      placeholders = phs, audience = [], length_arg = len\<rparr>"

definition throttled :: "nat \<Rightarrow> rat request \<Rightarrow> outcome" where
  \<comment> \<open>an upstream that answers the first call with a rate-limit error carrying
      \<open>Retry-After: 3\<close>, and every later call with a text\<close>
  "throttled k r =
     (if k = 0 then Raised ''Error code: 429'' [(''Retry-After'', ''3'')]
      else Completion ''Hi {name}'')"

definition rejected :: "nat \<Rightarrow> rat request \<Rightarrow> outcome" where
  "rejected k r = Raised ''Error code: 401 - User not found'' []"

definition throttled_invalid :: "nat \<Rightarrow> rat request \<Rightarrow> outcome" where
  \<comment> \<open>an error whose text signals both throttling and an invalid credential\<close>
  "throttled_invalid k r =
     Raised ''429 Too Many Requests: Invalid plan'' [(''Retry-After'', ''3'')]"

definition override_env :: environ where
  "override_env = Map.empty(''DEEPSEEK_BASE_URL'' \<mapsto> ''https://example.test/v1'')"

definition bad_tokens_env :: environ where
  "bad_tokens_env = Map.empty(''DEEPSEEK_MAX_TOKENS'' \<mapsto> ''abc'')"

section \<open>Properties of the string functions\<close>

lemma startswith_single: "startswith s [c] \<longleftrightarrow> (s \<noteq> [] \<and> hd s = c)"
  by (cases s) (auto simp: startswith_def)

lemma endswith_single: "endswith s [c] \<longleftrightarrow> (s \<noteq> [] \<and> last s = c)"
  by (simp add: endswith_def startswith_single hd_rev)

lemma braced_iff: "braced t \<longleftrightarrow> (t \<noteq> [] \<and> hd t = CHR ''{'' \<and> last t = CHR ''}'')"
  by (auto simp: braced_def startswith_single endswith_single)

lemma set_strip_chars: "set (strip_chars s cs) \<subseteq> set s"
  unfolding strip_chars_def
  by (metis set_dropWhileD set_rev subsetI)

lemma set_strip: "set (strip s) \<subseteq> set s"
  unfolding strip_def
  by (metis set_dropWhileD set_rev subsetI)

lemma strip_id:
  assumes "t \<noteq> []" and "\<not> is_space (hd t)" and "\<not> is_space (last t)"
  shows "strip t = t"
proof -
  have front: "dropWhile is_space t = t"
    using assms(1,2) by (cases t) auto
  have "rev t \<noteq> []" and "\<not> is_space (hd (rev t))"
    using assms(1,3) by (auto simp: hd_rev)
  then have rear: "dropWhile is_space (rev t) = rev t"
    by (cases "rev t") auto
  show ?thesis by (simp add: strip_def front rear)
qed

lemma strip_braced: "braced t \<Longrightarrow> strip t = t"
  by (rule strip_id) (auto simp: braced_iff is_space_def)

text \<open>Splitting on a one-character separator undoes joining pieces that are free of it.\<close>

lemma split_from_free:
  "c \<notin> set t \<Longrightarrow> split_from [c] acc (t @ rest) = split_from [c] (rev t @ acc) rest"
  by (induction t arbitrary: acc) (auto simp: startswith_single)

lemma split_from_join:
  "ts \<noteq> [] \<Longrightarrow> \<forall>t\<in>set ts. c \<notin> set t \<Longrightarrow>
   split_from [c] acc (join [c] ts) = (rev acc @ hd ts) # tl ts"
proof (induction ts arbitrary: acc)
  case Nil
  then show ?case by simp
next
  case (Cons x xs)
  have x: "c \<notin> set x" using Cons.prems by simp
  show ?case
  proof (cases xs)
    case Nil
    have "split_from [c] acc (x @ []) = split_from [c] (rev x @ acc) []"
      using x by (rule split_from_free)
    then show ?thesis using Nil by simp
  next
    case (Cons y ys)
    have "split_from [c] acc (x @ c # join [c] xs)
          = split_from [c] (rev x @ acc) (c # join [c] xs)"
      using x by (rule split_from_free)
    also have "\<dots> = (rev acc @ x) # split_from [c] [] (join [c] xs)"
      by (simp add: startswith_single)
    also have "split_from [c] [] (join [c] xs) = xs"
      using Cons.IH[of "[]"] Cons.prems Cons by simp
    finally show ?thesis using Cons by simp
  qed
qed

lemma split_join:
  "ts \<noteq> [] \<Longrightarrow> \<forall>t\<in>set ts. c \<notin> set t \<Longrightarrow> split (join [c] ts) [c] = ts"
  by (simp add: split_def split_from_join)

lemma split_from_pieces:
  "c \<notin> set acc \<Longrightarrow> p \<in> set (split_from [c] acc s) \<Longrightarrow> c \<notin> set p"
proof (induction s arbitrary: acc)
  case Nil
  then show ?case by simp
next
  case (Cons a s)
  show ?case
  proof (cases "a = c")
    case True
    with Cons.prems have "p = rev acc \<or> p \<in> set (split_from [c] [] s)"
      by (simp add: startswith_single)
    then show ?thesis using Cons.IH[of "[]"] Cons.prems(1) by auto
  next
    case False
    with Cons.prems have "p \<in> set (split_from [c] (a # acc) s)"
      by (simp add: startswith_single)
    then show ?thesis using Cons.IH[of "a # acc"] Cons.prems(1) False by auto
  qed
qed

lemma split_pieces: "p \<in> set (split s [c]) \<Longrightarrow> c \<notin> set p"
  unfolding split_def by (rule split_from_pieces[of c "[]"]) auto

section \<open>Placeholder normalisation\<close>

lemma wrap_braced: "braced (wrap_placeholder ph)"
  by (auto simp: wrap_placeholder_def braced_iff startswith_single endswith_single)

lemma wrap_id: "braced t \<Longrightarrow> wrap_placeholder t = t"
  by (simp add: wrap_placeholder_def braced_def)

lemma set_wrap: "set (wrap_placeholder ph) \<subseteq> set ph \<union> {CHR ''{'', CHR ''}''}"
  using set_strip_chars [of ph "''{} ''"] by (auto simp: wrap_placeholder_def)

lemma raw_placeholders_free:
  assumes "p \<in> set (raw_placeholders s)"
  shows "CHR '','' \<notin> set p"
proof (cases "filter (\<lambda>p. p \<noteq> []) (map strip (split s '','')) = []")
  case True
  with assms have "p = ''{name}''" by (simp add: raw_placeholders_def)
  then show ?thesis by simp
next
  case False
  with assms obtain q where q: "q \<in> set (split s '','')" "p = strip q"
    by (auto simp: raw_placeholders_def)
  then have "CHR '','' \<notin> set q" using split_pieces by blast
  then show ?thesis using q set_strip by blast
qed

lemma raw_placeholders_nonempty: "raw_placeholders s \<noteq> []"
  by (simp add: raw_placeholders_def Let_def)

lemma norm_loop_set: "set (norm_loop acc raw) = set acc \<union> wrap_placeholder ` set raw"
  by (induction raw arbitrary: acc) (auto simp: Let_def)

lemma norm_loop_distinct: "distinct acc \<Longrightarrow> distinct (norm_loop acc raw)"
  by (induction raw arbitrary: acc) (auto simp: Let_def)

lemma norm_loop_id:
  "distinct (acc @ ts) \<Longrightarrow> \<forall>t\<in>set ts. braced t \<Longrightarrow> norm_loop acc ts = acc @ ts"
  by (induction ts arbitrary: acc) (auto simp: Let_def wrap_id)

lemma raw_placeholders_join:
  assumes "ts \<noteq> []" and "\<forall>t\<in>set ts. braced t" and "\<forall>t\<in>set ts. CHR '','' \<notin> set t"
  shows "raw_placeholders (join '','' ts) = ts"
proof -
  have pieces: "split (join '','' ts) '','' = ts"
    using assms(1,3) by (rule split_join)
  have stripped: "map strip ts = ts"
    using assms(2) by (simp add: map_idI strip_braced)
  have kept: "filter (\<lambda>p. p \<noteq> []) ts = ts"
    using assms(2) by (auto simp: braced_iff filter_id_conv)
  show ?thesis using assms(1) by (simp add: raw_placeholders_def pieces stripped kept)
qed

lemma normalize_nonempty: "normalize_placeholders s \<noteq> []"
  using raw_placeholders_nonempty[of s] norm_loop_set[of "[]" "raw_placeholders s"]
  by (auto simp: normalize_placeholders_def)

lemma normalize_braced: "t \<in> set (normalize_placeholders s) \<Longrightarrow> braced t"
  by (auto simp: normalize_placeholders_def norm_loop_set wrap_braced)

lemma normalize_comma_free: "t \<in> set (normalize_placeholders s) \<Longrightarrow> CHR '','' \<notin> set t"
  using raw_placeholders_free set_wrap
  by (fastforce simp: normalize_placeholders_def norm_loop_set)

lemma normalize_distinct: "distinct (normalize_placeholders s)"
  by (simp add: normalize_placeholders_def norm_loop_distinct)

text \<open>
  C9. Normalising the comma-joined result of a normalisation gives the same sequence: for
  every raw string, the tokens are split, trimmed, wrapped in braces and de-duplicated in
  first-seen order (\<open>{name}\<close> when nothing remains), and doing so again to their join on
  commas changes nothing.
\<close>

theorem normalize_idempotent:
  "normalize_placeholders (join '','' (normalize_placeholders s)) = normalize_placeholders s"
proof -
  let ?ts = "normalize_placeholders s"
  have br: "\<forall>t\<in>set ?ts. braced t" using normalize_braced by blast
  have fr: "\<forall>t\<in>set ?ts. CHR '','' \<notin> set t" using normalize_comma_free by blast
  have "raw_placeholders (join '','' ?ts) = ?ts"
    using normalize_nonempty br fr by (rule raw_placeholders_join)
  then show ?thesis
    using norm_loop_id[of "[]" ?ts] normalize_distinct[of s] br
    by (simp add: normalize_placeholders_def)
qed

section \<open>The length directive\<close>

text \<open>
  C5 (as amended). The directive is ``4 to 5 sentences'' for \<open>medium\<close>, ``7 to 9
  sentences'' for \<open>long\<close> and ``1 to 2 sentences'' for \<open>short\<close>; every other value of the
  length gets the directive of \<open>short\<close>, not the one of \<open>medium\<close>.
\<close>

theorem sentence_rule_by_length:
  "sentence_rule ''medium'' = ''Write 4 to 5 complete sentences.'' \<and>
   sentence_rule ''long'' = ''Write 7 to 9 complete sentences.'' \<and>
   sentence_rule ''short'' = ''Write 1 to 2 concise sentences.'' \<and>
   (l \<noteq> ''medium'' \<longrightarrow> l \<noteq> ''long'' \<longrightarrow>
      sentence_rule l = ''Write 1 to 2 concise sentences.'')"
  by (simp add: sentence_rule_def)

theorem sentence_rule_by_length_witness:
  "sentence_rule ''huge'' = ''Write 1 to 2 concise sentences.''"
  by (rule sentence_rule_by_length
        [THEN conjunct2, THEN conjunct2, THEN conjunct2, rule_format]) simp_all

text \<open>The claim as first stated fails: an unknown length does not get the directive of \<open>medium\<close>.\<close>

theorem sentence_rule_unknown_counterexample:
  "sentence_rule ''huge'' = ''Write 1 to 2 concise sentences.'' \<and>
   sentence_rule ''huge'' \<noteq> sentence_rule ''medium''"
  by (simp add: sentence_rule_def)

section \<open>The rate gate\<close>

text \<open>The floats of the example, as the doubles they are.\<close>

lemma example_doubles:
  "tenth = Finite (3602879701896397 / 36028797018963968)"
  "clock_07 = Finite (3152519739159347 / 4503599627370496)"
  "dadd clock_07 tenth = Finite (7205759403792793 / 9007199254740992)"
  by code_simp+




section \<open>Configuration\<close>

lemma decimal_defaults:
  "decimal_int ''2500'' = Some 2500"
  "decimal_float ''1.5'' = Some (3 / 2)"
  "decimal_float ''0.6'' = Some (3 / 5)"
  "decimal_float ''45'' = Some 45"
  by (simp_all add: decimal_int_def decimal_float_def decimal_nat_def is_decimal_def
      digit_value_def)

text \<open>
  C6 (as amended). Whenever \<open>resolve_connection_details\<close> returns, the credential is the
  first non-empty one of the explicit argument, \<open>DEEPSEEK_API_KEY\<close> and
  \<open>DEFAULT_DEEPSEEK_API_KEY\<close>; a credential that starts with \<open>sk-or-v1-\<close> gets the OpenRouter
  endpoint whatever \<open>DEEPSEEK_BASE_URL\<close> says, any other credential gets \<open>DEEPSEEK_BASE_URL\<close>
  if it is set and the direct-vendor endpoint otherwise; the model is \<open>DEEPSEEK_MODEL\<close> if it
  is set, and otherwise the default model of the credential's shape.
\<close>

theorem resolve_endpoint_and_model:
  assumes "resolve_connection_details to_int to_float env explicit_api_key = Inr c"
  shows "py_or (py_or explicit_api_key (env ''DEEPSEEK_API_KEY''))
           (env ''DEFAULT_DEEPSEEK_API_KEY'') = Some (api_key c) \<and>
         is_openrouter c = startswith (api_key c) ''sk-or-v1-'' \<and>
         base_url c =
           (if startswith (api_key c) ''sk-or-v1-'' then ''https://openrouter.ai/api/v1''
            else getenv env ''DEEPSEEK_BASE_URL'' ''https://api.deepseek.com'') \<and>
         model c =
           getenv env ''DEEPSEEK_MODEL''
             (if startswith (api_key c) ''sk-or-v1-'' then ''deepseek/deepseek-r1-0528''
              else ''deepseek-reasoner'')"
  using assms
  by (auto simp: resolve_connection_details_def Let_def
      split: option.splits list.splits if_splits)

lemma resolve_example:
  "resolve_connection_details decimal_int decimal_float override_env (Some ''sk-or-v1-abc'')
   = Inr \<lparr>api_key = ''sk-or-v1-abc'', base_url = ''https://openrouter.ai/api/v1'',
          model = ''deepseek/deepseek-r1-0528'', temperature = 7 / 10, max_tokens = None,
          is_openrouter = True\<rparr>"
  by (simp add: resolve_connection_details_def override_env_def py_or_def startswith_def
      getenv_def decimal_float_def decimal_nat_def is_decimal_def digit_value_def strip_def
      isdigit_def)

theorem resolve_endpoint_and_model_witness:
  "resolve_connection_details decimal_int decimal_float override_env (Some ''sk-or-v1-abc'')
   = Inr \<lparr>api_key = ''sk-or-v1-abc'', base_url = ''https://openrouter.ai/api/v1'',
          model = ''deepseek/deepseek-r1-0528'', temperature = 7 / 10, max_tokens = None,
          is_openrouter = True\<rparr> \<and>
   startswith ''sk-or-v1-abc'' ''sk-or-v1-'' \<and>
   getenv override_env ''DEEPSEEK_MODEL'' ''deepseek/deepseek-r1-0528''
   = ''deepseek/deepseek-r1-0528''"
  using resolve_example resolve_endpoint_and_model[OF resolve_example]
  by (simp add: startswith_def)

text \<open>
  The claim as first stated fails: with the endpoint override set, the credential
  \<open>sk-or-v1-abc\<close> still resolves to the OpenRouter endpoint.
\<close>

theorem endpoint_override_counterexample:
  "override_env ''DEEPSEEK_BASE_URL'' = Some ''https://example.test/v1'' \<and>
   map_sum id base_url
     (resolve_connection_details decimal_int decimal_float override_env (Some ''sk-or-v1-abc''))
   = Inr ''https://openrouter.ai/api/v1''"
  by (simp add: resolve_example) (simp add: override_env_def)

text \<open>When the function returns: a credential is found and the builtins accept the settings.\<close>

lemma resolve_returns:
  assumes "py_or (py_or explicit_api_key (env ''DEEPSEEK_API_KEY''))
             (env ''DEFAULT_DEEPSEEK_API_KEY'') = Some (k # ks)"
    and "to_float (getenv env ''DEEPSEEK_TEMPERATURE'' ''0.7'') = Some t"
    and "isdigit (strip (getenv env ''DEEPSEEK_MAX_TOKENS'' [])) \<Longrightarrow>
         to_int (strip (getenv env ''DEEPSEEK_MAX_TOKENS'' [])) = Some v"
  shows "\<exists>c. resolve_connection_details to_int to_float env explicit_api_key = Inr c"
  using assms
  by (auto simp: resolve_connection_details_def Let_def)

text \<open>In \<open>main.py\<close> the endpoint override does win, and the credential plays no part.\<close>

lemma main_endpoint_override:
  "env ''DEEPSEEK_BASE_URL'' = Some url \<Longrightarrow> DEEPSEEK_BASE_URL_of env = url"
  by (simp add: DEEPSEEK_BASE_URL_of_def getenv_def)

text \<open>
  C7 (as amended). Each numeric setting of \<open>main.py\<close> is read strictly. When its variable is
  not set, the default applies (2500 tokens, an interval of 1.5, a temperature of 0.6, a
  timeout of 45). When it is set, the string goes to \<open>int\<close> or \<open>float\<close>: a well-formed
  string gives its value, and a malformed one raises \<open>ValueError\<close>; there is no fallback
  to the default.
\<close>

theorem numeric_settings_strict:
  assumes "to_int ''2500'' = Some 2500"
    and "to_float ''1.5'' = Some i"
    and "to_float ''0.6'' = Some t"
    and "to_float ''45'' = Some w"
  shows "(env ''DEEPSEEK_MAX_TOKENS'' = None \<longrightarrow>
            DEEPSEEK_MAX_TOKENS_of to_int env = Inr 2500) \<and>
         (\<forall>s. env ''DEEPSEEK_MAX_TOKENS'' = Some s \<longrightarrow>
            DEEPSEEK_MAX_TOKENS_of to_int env =
              (case to_int s of None \<Rightarrow> Inl ValueError | Some v \<Rightarrow> Inr v)) \<and>
         (env ''OPENROUTER_MIN_INTERVAL'' = None \<longrightarrow>
            min_interval_seconds_of to_float env = Inr i) \<and>
         (\<forall>s. env ''OPENROUTER_MIN_INTERVAL'' = Some s \<longrightarrow>
            min_interval_seconds_of to_float env =
              (case to_float s of None \<Rightarrow> Inl ValueError | Some v \<Rightarrow> Inr v)) \<and>
         (env ''DEEPSEEK_TEMPERATURE'' = None \<longrightarrow> temperature_of to_float env = Inr t) \<and>
         (\<forall>s. env ''DEEPSEEK_TEMPERATURE'' = Some s \<longrightarrow>
            temperature_of to_float env =
              (case to_float s of None \<Rightarrow> Inl ValueError | Some v \<Rightarrow> Inr v)) \<and>
         (env ''OPENROUTER_TIMEOUT'' = None \<longrightarrow> timeout_seconds_of to_float env = Inr w) \<and>
         (\<forall>s. env ''OPENROUTER_TIMEOUT'' = Some s \<longrightarrow>
            timeout_seconds_of to_float env =
              (case to_float s of None \<Rightarrow> Inl ValueError | Some v \<Rightarrow> Inr v))"
  using assms
  by (simp add: DEEPSEEK_MAX_TOKENS_of_def min_interval_seconds_of_def temperature_of_def
      timeout_seconds_of_def float_setting_def getenv_def)

theorem numeric_settings_strict_witness:
  "DEEPSEEK_MAX_TOKENS_of decimal_int bad_tokens_env = Inl ValueError \<and>
   DEEPSEEK_MAX_TOKENS_of decimal_int Map.empty = Inr 2500 \<and>
   temperature_of decimal_float bad_tokens_env = Inr (3 / 5)"
  using numeric_settings_strict[where to_int = decimal_int and to_float = decimal_float
        and env = bad_tokens_env, OF decimal_defaults]
    numeric_settings_strict[where to_int = decimal_int and to_float = decimal_float
        and env = Map.empty, OF decimal_defaults]
  by (simp add: bad_tokens_env_def decimal_int_def decimal_nat_def is_decimal_def)

text \<open>
  The claim as first stated fails: with \<open>DEEPSEEK_MAX_TOKENS=abc\<close> the setting is not the
  default 2500, the read raises \<open>ValueError\<close>.
\<close>

theorem malformed_max_tokens_counterexample:
  "DEEPSEEK_MAX_TOKENS_of decimal_int bad_tokens_env = Inl ValueError"
  by (simp add: DEEPSEEK_MAX_TOKENS_of_def bad_tokens_env_def getenv_def decimal_int_def
      decimal_nat_def is_decimal_def)

text \<open>
  The temperature and the timeout are read inside the orchestrator: a malformed one makes
  every call raise \<open>ValueError\<close> before anything is sent.
\<close>

lemma malformed_float_stops_generation:
  assumes "client_ready h"
    and "temperature_of (float_of h) (environ h) = Inl e \<or>
         (\<exists>t. temperature_of (float_of h) (environ h) = Inr t) \<and>
         timeout_seconds_of (float_of h) (environ h) = Inl e"
  shows "generate_with_openrouter_via_client_app h a = (RaiseError e, []) \<and>
         generate_with_openrouter_via_client_backend h a = (RaiseError e, [])"
  using assms
  by (auto simp: generate_with_openrouter_via_client_app_def
      generate_with_openrouter_via_client_backend_def)

section \<open>The completion orchestrator\<close>

lemma attempts_app: "[1..<max_retries + 1] = [1, 2, 3, 4]"
  by (simp add: max_retries_def upt_rec)

lemma attempts_backend: "[1..<5] = [1, 2, 3, 4::nat]"
  by (simp add: upt_rec)

lemma not_auth_empty: "\<not> is_auth_error []"
  by (simp add: is_auth_error_def lower_def startswith_def)

lemma not_rate_limited_empty: "\<not> is_rate_limited []"
  by (simp add: is_rate_limited_def lower_def startswith_def)

lemma scale_down_floor: "40 \<le> req_max_tokens (scale_down h a req)"
  by (simp add: scale_down_def Let_def)

lemma example_host_settings:
  "client_ready (example_host Map.empty up)"
  "temperature_of (float_of (example_host Map.empty up)) (environ (example_host Map.empty up))
   = Inr (3 / 5)"
  "timeout_seconds_of (float_of (example_host Map.empty up)) (environ (example_host Map.empty up))
   = Inr 45"
  by (simp_all add: example_host_def temperature_of_def timeout_seconds_of_def
      float_setting_def getenv_def decimal_float_def decimal_nat_def is_decimal_def
      digit_value_def)

lemma example_placeholders:
  "normalize_placeholders (placeholders (example_args [] len)) = [''{name}'']"
  by (simp add: example_args_def normalize_placeholders_def raw_placeholders_def split_def
      strip_def wrap_placeholder_def startswith_def endswith_def)

text \<open>The trace only grows: what an attempt and the loop return extends what they were given.\<close>

lemma app_attempt_extends:
  "\<exists>ext. snd (app_attempt h a n t attempt req trace) = trace @ ext"
  by (auto simp: app_attempt_def Let_def split: outcome.splits)

lemma app_loop_extends:
  "\<exists>ext. snd (app_loop h a n t attempts req trace last_exc) = trace @ ext"
proof (induction attempts arbitrary: req trace last_exc)
  case Nil
  then show ?case by simp
next
  case (Cons attempt rest)
  obtain st tr where at: "app_attempt h a n t attempt req trace = (st, tr)"
    by (cases "app_attempt h a n t attempt req trace")
  obtain e1 where tr: "tr = trace @ e1"
    using app_attempt_extends[of h a n t attempt req trace] at by auto
  show ?case
  proof (cases st)
    case (Done r)
    then show ?thesis using at tr by simp
  next
    case (Retry req' d e)
    obtain e2 where
      "snd (app_loop h a n t rest req' (tr @ [Sleep d]) e) = (tr @ [Sleep d]) @ e2"
      using Cons.IH by blast
    then show ?thesis using at tr Retry by simp
  qed
qed

lemma backend_attempt_extends:
  "\<exists>ext. snd (backend_attempt h a n t attempt req trace) = trace @ ext"
  by (auto simp: backend_attempt_def Let_def split: outcome.splits)

lemma backend_loop_extends:
  "\<exists>ext. snd (backend_loop h a n t attempts req trace) = trace @ ext"
proof (induction attempts arbitrary: req trace)
  case Nil
  then show ?case by simp
next
  case (Cons attempt rest)
  obtain st tr where at: "backend_attempt h a n t attempt req trace = (st, tr)"
    by (cases "backend_attempt h a n t attempt req trace")
  obtain e1 where tr: "tr = trace @ e1"
    using backend_attempt_extends[of h a n t attempt req trace] at by auto
  show ?case
  proof (cases st)
    case (Done r)
    then show ?thesis using at tr by simp
  next
    case (Retry req' d e)
    obtain e2 where
      "snd (backend_loop h a n t rest req' (tr @ [Sleep d])) = (tr @ [Sleep d]) @ e2"
      using Cons.IH by blast
    then show ?thesis using at tr Retry by simp
  qed
qed

subsection \<open>Authentication failures\<close>

text \<open>
  C4. In both trees, when the first upstream call raises an error whose text is classified
  as an authentication failure, the orchestrator raises the HTTP error
  \<open>OpenRouter auth error: ...\<close> at once: the trace holds the one pass of the gate and the
  one upstream call, and no sleep.
\<close>

theorem auth_error_stops_first_attempt:
  assumes "client_ready h"
    and "temperature_of (float_of h) (environ h) = Inr t"
    and "timeout_seconds_of (float_of h) (environ h) = Inr w"
    and "upstream h 0 (first_req h a (normalize_placeholders (placeholders a)) t)
         = Raised s headers"
    and "is_auth_error s"
  shows "generate_with_openrouter_via_client_app h a =
           (RaiseHTTP 502 (''OpenRouter auth error: '' @ s),
            [Gate, Call (first_req h a (normalize_placeholders (placeholders a)) t)]) \<and>
         generate_with_openrouter_via_client_backend h a =
           (RaiseHTTP 502 (''OpenRouter auth error: '' @ s),
            [Gate, Call (first_req h a (normalize_placeholders (placeholders a)) t)])"
  using assms
  unfolding generate_with_openrouter_via_client_app_def
    generate_with_openrouter_via_client_backend_def attempts_app attempts_backend
  by (simp add: app_attempt_def backend_attempt_def n_calls_def app_on_exception_def
      backend_on_exception_def)

theorem auth_error_stops_first_attempt_witness:
  "generate_with_openrouter_via_client_app (example_host Map.empty rejected)
     (example_args [] ''short'') =
     (RaiseHTTP 502 ''OpenRouter auth error: Error code: 401 - User not found'',
      [Gate, Call (first_req (example_host Map.empty rejected) (example_args [] ''short'')
                     [''{name}''] (3 / 5))]) \<and>
   generate_with_openrouter_via_client_backend (example_host Map.empty rejected)
     (example_args [] ''short'') =
     (RaiseHTTP 502 ''OpenRouter auth error: Error code: 401 - User not found'',
      [Gate, Call (first_req (example_host Map.empty rejected) (example_args [] ''short'')
                     [''{name}''] (3 / 5))])"
proof -
  have up: "upstream (example_host Map.empty rejected) 0
              (first_req (example_host Map.empty rejected) (example_args [] ''short'')
                 (normalize_placeholders (placeholders (example_args [] ''short''))) (3 / 5))
            = Raised ''Error code: 401 - User not found'' []"
    by (simp add: example_host_def rejected_def)
  have au: "is_auth_error ''Error code: 401 - User not found''"
    by code_simp
  show ?thesis
    using auth_error_stops_first_attempt[OF example_host_settings up au]
    by (simp add: example_placeholders)
qed

text \<open>
  C10. In the handler of both trees the authentication test comes before the rate-limit
  test and looks for substrings: on any attempt, when the upstream call raises an error
  whose text contains \<open>401\<close>, \<open>403\<close>, \<open>User not found\<close> or, in any case of letters,
  \<open>invalid\<close>, the loop ends there with \<open>OpenRouter auth error: ...\<close>, with no sleep and
  no further call, whether or not the text also signals rate limiting.
\<close>

theorem auth_check_precedes_rate_limit:
  assumes "upstream h (n_calls trace) req = Raised s headers"
    and "contains s ''401'' \<or> contains s ''403'' \<or> contains s ''User not found'' \<or>
         contains (lower s) ''invalid''"
  shows "app_loop h a norm_placeholders t (attempt # rest) req trace last_exc =
           (RaiseHTTP 502 (''OpenRouter auth error: '' @ s), trace @ [Gate, Call req]) \<and>
         backend_loop h a norm_placeholders t (attempt # rest) req trace =
           (RaiseHTTP 502 (''OpenRouter auth error: '' @ s), trace @ [Gate, Call req])"
  using assms
  by (simp add: app_attempt_def backend_attempt_def app_on_exception_def
      backend_on_exception_def is_auth_error_def)

theorem auth_check_precedes_rate_limit_witness:
  "is_rate_limited ''429 Too Many Requests: Invalid plan'' \<and>
   app_loop (example_host Map.empty throttled_invalid) (example_args [] ''short'')
     [''{name}''] (3 / 5) [2, 3, 4]
     (first_req (example_host Map.empty throttled_invalid) (example_args [] ''short'')
        [''{name}''] (3 / 5))
     [] ''None'' =
     (RaiseHTTP 502 ''OpenRouter auth error: 429 Too Many Requests: Invalid plan'',
      [Gate, Call (first_req (example_host Map.empty throttled_invalid)
                     (example_args [] ''short'') [''{name}''] (3 / 5))]) \<and>
   backend_loop (example_host Map.empty throttled_invalid) (example_args [] ''short'')
     [''{name}''] (3 / 5) [2, 3, 4]
     (first_req (example_host Map.empty throttled_invalid) (example_args [] ''short'')
        [''{name}''] (3 / 5))
     [] =
     (RaiseHTTP 502 ''OpenRouter auth error: 429 Too Many Requests: Invalid plan'',
      [Gate, Call (first_req (example_host Map.empty throttled_invalid)
                     (example_args [] ''short'') [''{name}''] (3 / 5))])"
proof -
  have rl: "is_rate_limited ''429 Too Many Requests: Invalid plan''"
    by code_simp
  have up: "upstream (example_host Map.empty throttled_invalid) (n_calls [])
              (first_req (example_host Map.empty throttled_invalid) (example_args [] ''short'')
                 [''{name}''] (3 / 5))
            = Raised ''429 Too Many Requests: Invalid plan'' [(''Retry-After'', ''3'')]"
    by (simp add: example_host_def throttled_invalid_def)
  have au: "contains ''429 Too Many Requests: Invalid plan'' ''401'' \<or>
            contains ''429 Too Many Requests: Invalid plan'' ''403'' \<or>
            contains ''429 Too Many Requests: Invalid plan'' ''User not found'' \<or>
            contains (lower ''429 Too Many Requests: Invalid plan'') ''invalid''"
    by code_simp
  show ?thesis
    using rl auth_check_precedes_rate_limit[OF up au, of "example_args [] ''short''"
        "[''{name}'']" "3 / 5" 2 "[3, 4]" "''None''"]
    by simp
qed

text \<open>The same holds when it is the simplified request of an attempt that is rejected.\<close>

lemma auth_error_on_simplified_request:
  assumes "upstream h (n_calls trace) req = Completion raw"
    and "strip (strip raw) = []"
    and "upstream h (n_calls (trace @ [Gate, Call req])) (simple_req h a norm_placeholders t req)
         = Raised s headers"
    and "is_auth_error s"
  shows "app_loop h a norm_placeholders t (attempt # rest) req trace last_exc =
           (RaiseHTTP 502 (''OpenRouter auth error: '' @ s),
            trace @ [Gate, Call req, Gate, Call (simple_req h a norm_placeholders t req)]) \<and>
         backend_loop h a norm_placeholders t (attempt # rest) req trace =
           (RaiseHTTP 502 (''OpenRouter auth error: '' @ s),
            trace @ [Gate, Call req, Gate, Call (simple_req h a norm_placeholders t req)])"
  using assms
  by (simp add: app_attempt_def backend_attempt_def app_on_exception_def
      backend_on_exception_def Let_def)

subsection \<open>Timeouts\<close>

text \<open>
  In \<open>app/main.py\<close> an upstream that times out on every call is called exactly four times,
  each time after the gate, with the request scaled down and a backoff sleep between two
  attempts, and the call ends with the HTTP error 504 \<open>OpenRouter timeout\<close>.
\<close>

lemma app_always_timeout:
  assumes "client_ready h"
    and "temperature_of (float_of h) (environ h) = Inr t"
    and "timeout_seconds_of (float_of h) (environ h) = Inr w"
    and "\<forall>k r. upstream h k r = TimeoutError"
  shows "generate_with_openrouter_via_client_app h a =
           (let r1 = first_req h a (normalize_placeholders (placeholders a)) t;
                r2 = scale_down h a r1;
                r3 = scale_down h a r2;
                r4 = scale_down h a r3
            in (RaiseHTTP 504 ''OpenRouter timeout'',
                [Gate, Call r1, Sleep (Backoff 1), Gate, Call r2, Sleep (Backoff 2),
                 Gate, Call r3, Sleep (Backoff 3), Gate, Call r4]))"
  using assms
  unfolding generate_with_openrouter_via_client_app_def attempts_app
  by (simp add: app_attempt_def app_on_timeout_def max_retries_def Let_def)

lemma app_always_timeout_example:
  "fst (generate_with_openrouter_via_client_app
          (example_host Map.empty (\<lambda>k r. TimeoutError)) (example_args [] ''short''))
   = RaiseHTTP 504 ''OpenRouter timeout'' \<and>
   n_calls (snd (generate_with_openrouter_via_client_app
                   (example_host Map.empty (\<lambda>k r. TimeoutError)) (example_args [] ''short'')))
   = 4 \<and>
   n_sleeps (snd (generate_with_openrouter_via_client_app
                    (example_host Map.empty (\<lambda>k r. TimeoutError)) (example_args [] ''short'')))
   = 3"
proof -
  have up: "\<forall>k r. upstream (example_host Map.empty (\<lambda>k r. TimeoutError)) k r = TimeoutError"
    by (simp add: example_host_def)
  show ?thesis
    using app_always_timeout[OF example_host_settings up]
    by (simp add: Let_def n_calls_def n_sleeps_def)
qed

text \<open>
  C2, on the code of \<open>backend/main.py\<close>. This tree has no handler for the timeout: when
  the first upstream call times out, the only handler takes the error, whose text is
  empty, for one that is neither an authentication failure nor a rate limit, and the call
  ends at once with the HTTP error 502 \<open>OpenRouter error: \<close>, after one upstream call
  and no sleep. The four attempts and the timeout error of the claim are those of
  \<open>app/main.py\<close> only.
\<close>

theorem backend_timeout_not_retried:
  assumes "client_ready h"
    and "temperature_of (float_of h) (environ h) = Inr t"
    and "timeout_seconds_of (float_of h) (environ h) = Inr w"
    and "upstream h 0 (first_req h a (normalize_placeholders (placeholders a)) t)
         = TimeoutError"
  shows "generate_with_openrouter_via_client_backend h a =
           (RaiseHTTP 502 ''OpenRouter error: '',
            [Gate, Call (first_req h a (normalize_placeholders (placeholders a)) t)])"
  using assms
  unfolding generate_with_openrouter_via_client_backend_def attempts_backend
  by (simp add: backend_attempt_def n_calls_def backend_on_exception_def not_auth_empty
      not_rate_limited_empty)

theorem backend_timeout_not_retried_witness:
  "generate_with_openrouter_via_client_backend
     (example_host Map.empty (\<lambda>k r. TimeoutError)) (example_args [] ''short'') =
   (RaiseHTTP 502 ''OpenRouter error: '',
    [Gate, Call (first_req (example_host Map.empty (\<lambda>k r. TimeoutError))
                   (example_args [] ''short'') [''{name}''] (3 / 5))])"
proof -
  have up: "upstream (example_host Map.empty (\<lambda>k r. TimeoutError)) 0
              (first_req (example_host Map.empty (\<lambda>k r. TimeoutError))
                 (example_args [] ''short'')
                 (normalize_placeholders (placeholders (example_args [] ''short''))) (3 / 5))
            = TimeoutError"
    by (simp add: example_host_def)
  show ?thesis
    using backend_timeout_not_retried[OF example_host_settings up]
    by (simp add: example_placeholders)
qed

subsection \<open>Rate limits and the retry-after duration\<close>

lemma throttled_text:
  "is_rate_limited ''Error code: 429''"
  "\<not> is_auth_error ''Error code: 429''"
  by code_simp+

lemma app_first_attempt_retry_after:
  assumes "upstream h 0 req = Raised s headers"
    and "is_rate_limited s" and "\<not> is_auth_error s"
    and "retry_after_header headers = Some ra"
    and "isdigit (remove1 CHR ''.'' ra)"
    and "float_of h ra = Some d"
  shows "app_attempt h a n t 1 req [] =
           (Retry (scale_down h a req) (Seconds d) s, [Gate, Call req])"
proof -
  obtain c cs where ra: "ra = c # cs"
    using assms(5) by (cases ra) (auto simp: isdigit_def)
  show ?thesis
    using assms
    by (simp add: app_attempt_def n_calls_def app_on_exception_def app_delay_def ra
        max_retries_def)
qed

text \<open>
  In \<open>app/main.py\<close>, when the first call is rate limited and the error carries a
  retry-after value made of digits, with one dot at most, that \<open>float\<close> accepts, the sleep
  before the second attempt is that value and not the backoff.
\<close>

lemma app_honours_retry_after:
  assumes "client_ready h"
    and "temperature_of (float_of h) (environ h) = Inr t"
    and "timeout_seconds_of (float_of h) (environ h) = Inr w"
    and "upstream h 0 (first_req h a (normalize_placeholders (placeholders a)) t)
         = Raised s headers"
    and "is_rate_limited s" and "\<not> is_auth_error s"
    and "retry_after_header headers = Some ra"
    and "isdigit (remove1 CHR ''.'' ra)"
    and "float_of h ra = Some d"
  shows "take 3 (snd (generate_with_openrouter_via_client_app h a)) =
           [Gate, Call (first_req h a (normalize_placeholders (placeholders a)) t),
            Sleep (Seconds d)]"
proof -
  let ?n = "normalize_placeholders (placeholders a)"
  let ?r = "first_req h a ?n t"
  have step: "app_attempt h a ?n t 1 ?r [] =
                (Retry (scale_down h a ?r) (Seconds d) s, [Gate, Call ?r])"
    using assms(4-9) by (rule app_first_attempt_retry_after)
  obtain ext where ext:
    "snd (app_loop h a ?n t [2, 3, 4] (scale_down h a ?r)
            ([Gate, Call ?r] @ [Sleep (Seconds d)]) s)
     = ([Gate, Call ?r] @ [Sleep (Seconds d)]) @ ext"
    using app_loop_extends[of h a ?n t "[2, 3, 4]" "scale_down h a ?r"
        "[Gate, Call ?r] @ [Sleep (Seconds d)]" s] by (elim exE)
  have "generate_with_openrouter_via_client_app h a =
          app_loop h a ?n t (1 # [2, 3, 4]) ?r [] ''None''"
    using assms(1-3)
    unfolding generate_with_openrouter_via_client_app_def attempts_app
    by (simp add: Let_def)
  also have "\<dots> = app_loop h a ?n t [2, 3, 4] (scale_down h a ?r)
                     ([Gate, Call ?r] @ [Sleep (Seconds d)]) s"
    by (simp only: app_loop.simps step prod.case step.case)
  finally show ?thesis using ext by simp
qed

lemma app_honours_retry_after_example:
  "take 3 (snd (generate_with_openrouter_via_client_app
                  (example_host Map.empty throttled) (example_args [] ''short''))) =
   [Gate, Call (first_req (example_host Map.empty throttled) (example_args [] ''short'')
                  [''{name}''] (3 / 5)),
    Sleep (Seconds 3)]"
proof -
  have up: "upstream (example_host Map.empty throttled) 0
              (first_req (example_host Map.empty throttled) (example_args [] ''short'')
                 (normalize_placeholders (placeholders (example_args [] ''short''))) (3 / 5))
            = Raised ''Error code: 429'' [(''Retry-After'', ''3'')]"
    by (simp add: example_host_def throttled_def)
  have ra: "retry_after_header [(''Retry-After'', ''3'')] = Some ''3''"
    by (simp add: retry_after_header_def py_or_def)
  have dg: "isdigit (remove1 CHR ''.'' ''3'')"
    by code_simp
  have fl: "float_of (example_host Map.empty throttled) ''3'' = Some 3"
    by (simp add: example_host_def decimal_float_def decimal_nat_def is_decimal_def
        digit_value_def)
  show ?thesis
    using app_honours_retry_after[OF example_host_settings up throttled_text ra dg fl]
    by (simp add: example_placeholders)
qed

lemma backend_first_attempt_rate_limited:
  assumes "upstream h 0 req = Raised s headers"
    and "is_rate_limited s" and "\<not> is_auth_error s"
  shows "backend_attempt h a n t 1 req [] =
           (Retry (scale_down h a req) (Backoff 1) s, [Gate, Call req])"
  using assms
  by (simp add: backend_attempt_def n_calls_def backend_on_exception_def)

text \<open>
  C3, on the code of \<open>backend/main.py\<close>. This tree never reads the headers of the error:
  when the first call is rate limited, the sleep before the second attempt is the backoff
  of attempt 1, whatever retry-after value the error carries. Sleeping the retry-after
  duration, as the claim says, is what \<open>app/main.py\<close> does.
\<close>

theorem backend_ignores_retry_after:
  assumes "client_ready h"
    and "temperature_of (float_of h) (environ h) = Inr t"
    and "timeout_seconds_of (float_of h) (environ h) = Inr w"
    and "upstream h 0 (first_req h a (normalize_placeholders (placeholders a)) t)
         = Raised s headers"
    and "is_rate_limited s" and "\<not> is_auth_error s"
  shows "take 3 (snd (generate_with_openrouter_via_client_backend h a)) =
           [Gate, Call (first_req h a (normalize_placeholders (placeholders a)) t),
            Sleep (Backoff 1)]"
proof -
  let ?n = "normalize_placeholders (placeholders a)"
  let ?r = "first_req h a ?n t"
  have step: "backend_attempt h a ?n t 1 ?r [] =
                (Retry (scale_down h a ?r) (Backoff 1) s, [Gate, Call ?r])"
    using assms(4-6) by (rule backend_first_attempt_rate_limited)
  obtain ext where ext:
    "snd (backend_loop h a ?n t [2, 3, 4] (scale_down h a ?r)
            ([Gate, Call ?r] @ [Sleep (Backoff 1)]))
     = ([Gate, Call ?r] @ [Sleep (Backoff 1)]) @ ext"
    using backend_loop_extends[of h a ?n t "[2, 3, 4]" "scale_down h a ?r"
        "[Gate, Call ?r] @ [Sleep (Backoff 1)]"] by (elim exE)
  have "generate_with_openrouter_via_client_backend h a =
          backend_loop h a ?n t (1 # [2, 3, 4]) ?r []"
    using assms(1-3)
    unfolding generate_with_openrouter_via_client_backend_def attempts_backend
    by (simp add: Let_def)
  also have "\<dots> = backend_loop h a ?n t [2, 3, 4] (scale_down h a ?r)
                     ([Gate, Call ?r] @ [Sleep (Backoff 1)])"
    by (simp only: backend_loop.simps step prod.case step.case)
  finally show ?thesis using ext by simp
qed

theorem backend_ignores_retry_after_witness:
  "take 3 (snd (generate_with_openrouter_via_client_backend
                  (example_host Map.empty throttled) (example_args [] ''short''))) =
   [Gate, Call (first_req (example_host Map.empty throttled) (example_args [] ''short'')
                  [''{name}''] (3 / 5)),
    Sleep (Backoff 1)]"
proof -
  have up: "upstream (example_host Map.empty throttled) 0
              (first_req (example_host Map.empty throttled) (example_args [] ''short'')
                 (normalize_placeholders (placeholders (example_args [] ''short''))) (3 / 5))
            = Raised ''Error code: 429'' [(''Retry-After'', ''3'')]"
    by (simp add: example_host_def throttled_def)
  show ?thesis
    using backend_ignores_retry_after[OF example_host_settings up throttled_text]
    by (simp add: example_placeholders)
qed

subsection \<open>Placeholders in the returned text\<close>

lemma startswith_hd: "startswith (c # cs) sub \<Longrightarrow> sub = [] \<or> hd sub = c"
  by (cases sub) (auto simp: startswith_def)

lemma count_absent: "\<not> contains s sub \<Longrightarrow> count s sub = 0"
proof (induction s)
  case Nil
  then show ?case by simp
next
  case (Cons c cs)
  then have "sub \<noteq> []" by (auto simp: startswith_def)
  with Cons show ?case by simp
qed

lemma count_skip:
  "sub \<noteq> [] \<Longrightarrow> hd sub \<notin> set pre \<Longrightarrow> count (pre @ s) sub = count s sub"
proof (induction pre)
  case Nil
  then show ?case by simp
next
  case (Cons c pre)
  then have "\<not> startswith (c # pre @ s) sub"
    using startswith_hd by fastforce
  with Cons show ?case by simp
qed

lemma count_at:
  assumes "sub \<noteq> []"
  shows "count (sub @ s) sub = Suc (count s sub)"
proof -
  obtain c cs where cs: "sub @ s = c # cs"
    using assms by (cases sub) auto
  have "startswith (sub @ s) sub"
    by (simp add: startswith_def)
  then have "count (c # cs) sub = Suc (count (drop (length sub) (c # cs)) sub)"
    using assms cs by simp
  then show ?thesis using cs[symmetric] by simp
qed

text \<open>
  One step of the loop does what is meant when the placeholder is missing, and leaves the
  text alone when the placeholder is there once.
\<close>

lemma missing_placeholder_once:
  assumes "braced ph" and "\<not> contains text ph"
  shows "enforce_step ph text = Inr (''Hello '' @ ph @ '', '' @ text) \<and>
         count (''Hello '' @ ph @ '', '' @ text) ph = 1"
proof -
  have ne: "ph \<noteq> []" and first: "hd ph = CHR ''{''"
    using assms(1) by (auto simp: braced_iff)
  have "count (''Hello '' @ ph @ '', '' @ text) ph = count (ph @ '', '' @ text) ph"
    using ne first by (intro count_skip) auto
  also have "\<dots> = Suc (count ('', '' @ text) ph)"
    using ne by (rule count_at)
  also have "count ('', '' @ text) ph = count text ph"
    using ne first by (intro count_skip) auto
  also have "\<dots> = 0"
    using assms(2) by (rule count_absent)
  finally show ?thesis
    using assms(2) by (simp add: enforce_step_def)
qed

lemma single_placeholder_kept:
  assumes "count text ph = 1"
  shows "enforce_step ph text = Inr text"
proof -
  have "contains text ph"
    using assms count_absent by fastforce
  then show ?thesis
    using assms by (simp add: enforce_step_def)
qed

text \<open>
  The scenario of the specification: no placeholder asked for, a text without \<open>{name}\<close>.
\<close>

lemma missing_placeholder_prepended:
  "fst (generate_with_openrouter_via_client_app
          (example_host Map.empty (\<lambda>k r. Completion ''Wishing you joy this season!''))
          (example_args [] ''short''))
   = Return ''Hello {name}, Wishing you joy this season!''"
  by code_simp

text \<open>
  C1, on the code. The post-processing does not leave every placeholder exactly once. For
  the placeholder list \<open>a b\<close>, normalised to \<open>{a b}\<close>, and the completion text
  \<open>{a b}{a{a{a b}b} b}\<close>, which holds the placeholder twice, the pieces around the two
  occurrences are \<open>{a{a\<close> and \<open>b} b}\<close>; joined by a blank they hold one more occurrence,
  and removing it leaves \<open>{a b}\<close> again. Both trees return \<open>{a b}{a b}\<close>, in which
  the placeholder occurs twice.
\<close>

theorem placeholder_left_twice:
  "enforce_placeholders (normalize_placeholders ''a b'') ''{a b}{a{a{a b}b} b}''
     = Inr ''{a b}{a b}'' \<and>
   count ''{a b}{a b}'' ''{a b}'' = 2 \<and>
   fst (generate_with_openrouter_via_client_app
          (example_host Map.empty (\<lambda>k r. Completion ''{a b}{a{a{a b}b} b}''))
          (example_args ''a b'' ''short'')) = Return ''{a b}{a b}'' \<and>
   fst (generate_with_openrouter_via_client_backend
          (example_host Map.empty (\<lambda>k r. Completion ''{a b}{a{a{a b}b} b}''))
          (example_args ''a b'' ''short'')) = Return ''{a b}{a b}''"
  by code_simp

text \<open>
  A placeholder that lies inside another one is doubled as well: the greeting prepended
  for \<open>{{a}}\<close> brings a second \<open>{a}\<close>.
\<close>

lemma nested_placeholder_twice:
  "enforce_placeholders (normalize_placeholders ''{a},{{a}}'') ''hi''
     = Inr ''Hello {{a}}, Hello {a}, hi'' \<and>
   count ''Hello {{a}}, Hello {a}, hi'' ''{a}'' = 2"
  by code_simp

end
